theory Spec2Isabelle
  imports Main
begin

section \<open>Python strings\<close>

text \<open>
  A Python \<open>str\<close> is modelled as a \<open>string\<close>: a list of characters, each a code point
  below 256. The character classes below are those of Python on that range.
\<close>

definition code :: "char \<Rightarrow> nat" where
  "code c = of_char c"

text \<open>\<open>str.isspace\<close> on one character: the whitespace that \<open>str.strip()\<close> removes.\<close>

definition isspace :: "char \<Rightarrow> bool" where
  "isspace c = ((9 \<le> code c \<and> code c \<le> 13) \<or> (28 \<le> code c \<and> code c \<le> 32)
     \<or> code c = 133 \<or> code c = 160)"

text \<open>\<open>str.isdigit\<close> on one character: the decimal digits and the superscripts 1, 2, 3.\<close>

definition isdigit :: "char \<Rightarrow> bool" where
  "isdigit c = ((48 \<le> code c \<and> code c \<le> 57) \<or> code c = 178 \<or> code c = 179 \<or> code c = 185)"

text \<open>\<open>str.isalpha\<close> on one character.\<close>

definition isalpha :: "char \<Rightarrow> bool" where
  "isalpha c = ((65 \<le> code c \<and> code c \<le> 90) \<or> (97 \<le> code c \<and> code c \<le> 122)
     \<or> code c = 170 \<or> code c = 181 \<or> code c = 186
     \<or> (192 \<le> code c \<and> code c \<le> 214) \<or> (216 \<le> code c \<and> code c \<le> 246)
     \<or> 248 \<le> code c)"

text \<open>\<open>str.lower\<close> on one character, then on a string.\<close>

definition lower_char :: "char \<Rightarrow> char" where
  "lower_char c =
     (if (65 \<le> code c \<and> code c \<le> 90) \<or> (192 \<le> code c \<and> code c \<le> 222 \<and> code c \<noteq> 215)
      then char_of (code c + 32) else c)"

definition lower :: "string \<Rightarrow> string" where
  "lower s = map lower_char s"

text \<open>\<open>s.strip()\<close>: leading and trailing whitespace removed.\<close>

definition lstrip :: "string \<Rightarrow> string" where
  "lstrip s = dropWhile isspace s"

definition rstrip :: "string \<Rightarrow> string" where
  "rstrip s = rev (dropWhile isspace (rev s))"

definition strip :: "string \<Rightarrow> string" where
  "strip s = rstrip (lstrip s)"

text \<open>\<open>s.startswith(p)\<close>.\<close>

definition startswith :: "string \<Rightarrow> string \<Rightarrow> bool" where
  "startswith s p = (take (length p) s = p)"

text \<open>\<open>w in text\<close> on strings: \<open>w\<close> occurs in \<open>text\<close> as a contiguous substring.\<close>

fun str_in :: "string \<Rightarrow> string \<Rightarrow> bool" where
  "str_in w [] = (w = [])"
| "str_in w (c # cs) = (startswith (c # cs) w \<or> str_in w cs)"

text \<open>
  \<open>s.count(sub)\<close>: the number of non-overlapping occurrences of \<open>sub\<close>, scanning from
  the left; for the empty \<open>sub\<close> Python answers \<open>len(s) + 1\<close>.
\<close>

function count_from :: "string \<Rightarrow> string \<Rightarrow> nat" where
  "count_from sub [] = 0"
| "count_from sub (c # cs) =
     (if sub \<noteq> [] \<and> startswith (c # cs) sub
      then Suc (count_from sub (drop (length sub) (c # cs)))
      else count_from sub cs)"
  by pat_completeness auto
termination
  by (relation "measure (\<lambda>(sub, s). length s)") (auto simp: neq_Nil_conv)

definition str_count :: "string \<Rightarrow> string \<Rightarrow> int" where
  "str_count s sub = (if sub = [] then int (length s) + 1 else int (count_from sub s))"

section \<open>feature\_extractor.py: the pure helpers\<close>

text \<open>
  \<^verbatim>\<open>
  def _normalize_url(url: str) -> str:
      url = url.strip()
      if not url.startswith(("http://", "https://")):
          url = "http://" + url
      return url
  \<close>
\<close>

definition normalize_url :: "string \<Rightarrow> string" where
  "normalize_url url =
     (let url = strip url in
      if \<not> (startswith url ''http://'' \<or> startswith url ''https://'')
      then ''http://'' @ url
      else url)"

text \<open>
  \<^verbatim>\<open>
  def _count_suspicious_keywords(url: str) -> int:
      suspicious_words = [ ... ]
      text = url.lower()
      return sum(1 for w in suspicious_words if w in text)
  \<close>
\<close>

definition suspicious_words :: "string list" where
  "suspicious_words =
     [''login'', ''secure'', ''signin'', ''verify'', ''update'',
      ''account'', ''bank'', ''payment'', ''confirm'', ''invoice'',
      ''paypal'', ''security'', ''webscr'', ''password'']"

definition count_suspicious_keywords :: "string \<Rightarrow> int" where
  "count_suspicious_keywords url =
     (let text = lower url in
      sum_list (map (\<lambda>w. 1) (filter (\<lambda>w. str_in w text) suspicious_words)))"

text \<open>\<open>s.split(sep)\<close> for a one-character separator: never the empty list.\<close>

fun str_split :: "string \<Rightarrow> char \<Rightarrow> string list" where
  "str_split [] sep = [[]]"
| "str_split (c # cs) sep =
     (if c = sep then [] # str_split cs sep
      else (case str_split cs sep of
              [] \<Rightarrow> [[c]]
            | w # ws \<Rightarrow> (c # w) # ws))"

section \<open>The collaborators of the pipeline\<close>

text \<open>
  The exceptions the code can meet: those its own expressions raise, and whatever a
  library call raises (named by its class).
\<close>

datatype exn = ValueError | IndexError | TypeError | AttributeError | LibraryError string

text \<open>What \<open>urlparse\<close> returns, as far as the code reads it.\<close>

record parse_result =
  scheme :: string
  netloc :: string
  path :: string

text \<open>What \<open>tldextract.extract\<close> returns.\<close>

record extract_result =
  ext_subdomain :: string
  ext_domain :: string
  ext_suffix :: string

text \<open>
  A \<open>datetime\<close>: its wall-clock reading in microseconds since the first instant the type
  can hold, and the UTC offset of its \<open>tzinfo\<close>, in microseconds, when it has one.
\<close>

record datetime =
  ticks :: int
  tzinfo :: "int option"

text \<open>The values python-whois puts in \<open>creation_date\<close>.\<close>

datatype pyval = PyNone | PyStr string | PyDatetime datetime | PyList "pyval list"

text \<open>Python's truth value of such a value (\<open>if not creation_date\<close>).\<close>

fun truthy :: "pyval \<Rightarrow> bool" where
  "truthy PyNone = False"
| "truthy (PyStr s) = (s \<noteq> [])"
| "truthy (PyDatetime d) = True"
| "truthy (PyList xs) = (xs \<noteq> [])"

text \<open>
  Everything outside the repository that a scan calls, as deterministic functions of
  their arguments. A call that can raise returns a sum, \<open>Inl\<close> the exception.
  \<^item> \<open>urlparse\<close>: \<open>urllib.parse.urlparse\<close>;
  \<^item> \<open>tldextract\<close>: \<open>tldextract.extract\<close>;
  \<^item> \<open>whois\<close>: \<open>whois.whois(domain).creation_date\<close>;
  \<^item> \<open>utcnow\<close>: the reading of \<open>datetime.datetime.utcnow()\<close>;
  \<^item> \<open>getpeercert\<close>: the TLS connection to port 443 up to \<open>ssock.getpeercert()\<close>,
    a certificate being a dictionary or \<open>None\<close>;
  \<^item> \<open>requests_get\<close>: \<open>requests.get(url, timeout=5, allow_redirects=True).history\<close>;
  \<^item> \<open>classifier\<close>: \<open>model.predict(scaler.transform([features]))[0]\<close>.
\<close>

record env =
  urlparse :: "string \<Rightarrow> exn + parse_result"
  tldextract :: "string \<Rightarrow> extract_result"
  whois :: "string \<Rightarrow> exn + pyval"
  utcnow :: int
  getpeercert :: "string \<Rightarrow> exn + (string \<times> string) list option"
  requests_get :: "string \<Rightarrow> exn + string list"
  classifier :: "int list \<Rightarrow> int"

text \<open>
  The two result strings of a scan, \<open>"Legitimate"\<close> and \<open>"Phishing"\<close>, and the
  dictionary that \<open>get_osint_details\<close> returns, its keys as fields.
\<close>

datatype verdict = Legitimate | Phishing

record osint =
  domain :: string
  https :: int
  domain_age_days :: int
  ssl_valid :: int
  redirects :: int
  suspicious_keywords :: int
  subdomain_count :: int

text \<open>
  The calls of a scan that leave the process: the three probes, the classifier with the
  vector it is given, and the row added to the database.
\<close>

datatype event =
    WhoisQuery string
  | TlsConnect string
  | HttpGet string
  | Classify "int list"
  | DbAdd string verdict osint

section \<open>feature\_extractor.py: the probes\<close>

text \<open>
  \<^verbatim>\<open>
  def _get_domain(url: str) -> str:
      url = _normalize_url(url)
      parsed = urlparse(url)
      domain = parsed.netloc.split(":")[0]
      return domain.lower()
  \<close>
\<close>

definition get_domain :: "env \<Rightarrow> string \<Rightarrow> exn + string" where
  "get_domain E url =
     (let url = normalize_url url in
      case urlparse E url of
        Inl e \<Rightarrow> Inl e
      | Inr parsed \<Rightarrow>
          (case str_split (netloc parsed) (CHR '':'') of
             [] \<Rightarrow> Inl IndexError
           | d # _ \<Rightarrow> Inr (lower d)))"

text \<open>
  The body of the \<open>try\<close> of \<open>_get_domain_age_days\<close>:
  \<^verbatim>\<open>
        w = whois.whois(domain)
        creation_date = w.creation_date
        if isinstance(creation_date, list):
            creation_date = creation_date[0]
        if not creation_date:
            return 0
        if hasattr(creation_date, "tzinfo") and creation_date.tzinfo is not None:
            creation_date = creation_date.replace(tzinfo=None)
        age = (datetime.datetime.utcnow() - creation_date).days
        return max(age, 0)
  \<close>
  \<open>replace(tzinfo=None)\<close> keeps the wall-clock reading; the \<open>days\<close> of a difference is
  its floor in days; subtracting anything but a datetime raises \<open>TypeError\<close>.
\<close>

definition microseconds_per_day :: int where
  "microseconds_per_day = 86400000000"

definition first_of :: "pyval \<Rightarrow> exn + pyval" where
  "first_of creation_date =
     (case creation_date of
        PyList xs \<Rightarrow> (case xs of [] \<Rightarrow> Inl IndexError | x # _ \<Rightarrow> Inr x)
      | _ \<Rightarrow> Inr creation_date)"

definition domain_age_try :: "env \<Rightarrow> string \<Rightarrow> exn + int" where
  "domain_age_try E dname =
     (case whois E dname of
        Inl e \<Rightarrow> Inl e
      | Inr creation_date \<Rightarrow>
          (case first_of creation_date of
             Inl e \<Rightarrow> Inl e
           | Inr creation_date \<Rightarrow>
               if \<not> truthy creation_date then Inr 0
               else (case creation_date of
                       PyDatetime d \<Rightarrow>
                         (let d = (case tzinfo d of None \<Rightarrow> d | Some off \<Rightarrow> d\<lparr>tzinfo := None\<rparr>);
                              age = (utcnow E - ticks d) div microseconds_per_day
                          in Inr (max age 0))
                     | _ \<Rightarrow> Inl TypeError)))"

text \<open>
  \<^verbatim>\<open>
  def _get_domain_age_days(domain: str) -> int:
      try:
          ...
      except Exception:
          return 0
  \<close>
  Each probe returns its value and the calls it made.
\<close>

definition get_domain_age_days :: "env \<Rightarrow> string \<Rightarrow> int \<times> event list" where
  "get_domain_age_days E dname =
     ((case domain_age_try E dname of Inl e \<Rightarrow> 0 | Inr age \<Rightarrow> age), [WhoisQuery dname])"

text \<open>
  \<^verbatim>\<open>
  def _has_valid_ssl(domain: str) -> int:
      try:
          context = ssl.create_default_context()
          with socket.create_connection((domain, 443), timeout=5) as sock:
              with context.wrap_socket(sock, server_hostname=domain) as ssock:
                  cert = ssock.getpeercert()
                  return 1 if cert else 0
      except Exception:
          return 0
  \<close>
\<close>

definition has_valid_ssl :: "env \<Rightarrow> string \<Rightarrow> int \<times> event list" where
  "has_valid_ssl E dname =
     ((case getpeercert E dname of
         Inl e \<Rightarrow> 0
       | Inr cert \<Rightarrow> (if cert \<noteq> None \<and> cert \<noteq> Some [] then 1 else 0)),
      [TlsConnect dname])"

text \<open>
  \<^verbatim>\<open>
  def _get_redirect_count(url: str) -> int:
      try:
          url = _normalize_url(url)
          resp = requests.get(url, timeout=5, allow_redirects=True)
          return len(resp.history)
      except Exception:
          return 0
  \<close>
\<close>

definition get_redirect_count :: "env \<Rightarrow> string \<Rightarrow> int \<times> event list" where
  "get_redirect_count E url =
     (let url = normalize_url url in
      ((case requests_get E url of
          Inl e \<Rightarrow> 0
        | Inr history \<Rightarrow> int (length history)),
       [HttpGet url]))"

section \<open>feature\_extractor.py: the record and the vector\<close>

text \<open>
  \<^verbatim>\<open>
  def get_osint_details(url: str) -> dict:
      norm_url = _normalize_url(url)
      parsed = urlparse(norm_url)
      domain = _get_domain(url)
      ext = tldextract.extract(norm_url)

      https_flag = 1 if parsed.scheme == "https" else 0
      domain_age = _get_domain_age_days(domain)
      ssl_valid = _has_valid_ssl(domain)
      redirects = _get_redirect_count(url)
      suspicious_count = _count_suspicious_keywords(url)
      subdomain_count = len(ext.subdomain.split(".")) if ext.subdomain else 0

      return {"domain": domain, "https": https_flag, "domain_age_days": domain_age,
              "ssl_valid": ssl_valid, "redirects": redirects,
              "suspicious_keywords": suspicious_count, "subdomain_count": subdomain_count}
  \<close>
  The two parsing calls stand outside every \<open>try\<close>: what they raise leaves the function.
\<close>

definition get_osint_details :: "env \<Rightarrow> string \<Rightarrow> (exn + osint) \<times> event list" where
  "get_osint_details E url =
     (let norm_url = normalize_url url in
      case urlparse E norm_url of
        Inl e \<Rightarrow> (Inl e, [])
      | Inr parsed \<Rightarrow>
          (case get_domain E url of
             Inl e \<Rightarrow> (Inl e, [])
           | Inr dname \<Rightarrow>
               (let ext = tldextract E norm_url;
                    https_flag = (if scheme parsed = ''https'' then 1 else 0);
                    (domain_age, ev1) = get_domain_age_days E dname;
                    (ssl_valid', ev2) = has_valid_ssl E dname;
                    (redirects', ev3) = get_redirect_count E url;
                    suspicious_count = count_suspicious_keywords url;
                    subdomain_count' =
                      (if ext_subdomain ext \<noteq> []
                       then int (length (str_split (ext_subdomain ext) (CHR ''.'')))
                       else 0)
                in (Inr \<lparr>domain = dname, https = https_flag, domain_age_days = domain_age,
                          ssl_valid = ssl_valid', redirects = redirects',
                          suspicious_keywords = suspicious_count,
                          subdomain_count = subdomain_count'\<rparr>,
                    ev1 @ ev2 @ ev3))))"

text \<open>
  The padding loop of \<open>extract_features\<close>:
  \<^verbatim>\<open>
      while len(features) < 30:
          features.append(0)
  \<close>
\<close>

function pad :: "int list \<Rightarrow> int list" where
  "pad features = (if length features < 30 then pad (features @ [0]) else features)"
  by pat_completeness auto
termination
  by (relation "measure (\<lambda>features. 30 - length features)") auto

text \<open>
  \<^verbatim>\<open>
  def extract_features(url: str):
      norm_url = _normalize_url(url)
      parsed = urlparse(norm_url)
      domain = _get_domain(url)
      ext = tldextract.extract(norm_url)
      osint = get_osint_details(url)
      features = []
      features.append(len(norm_url))                         # 1 URL length
      features.append(norm_url.count("."))                   # 2 dots
      features.append(1 if "@" in norm_url else 0)           # 3 @
      features.append(norm_url.count("//"))                  # 4 //
      features.append(norm_url.count("-"))                   # 5 -
      features.append(norm_url.count("?"))                   # 6 ?
      features.append(norm_url.count("="))                   # 7 =
      features.append(sum(c.isdigit() for c in norm_url))    # 8 digits
      features.append(sum(c.isalpha() for c in norm_url))    # 9 letters
      features.append(len(ext.suffix))                       # 10 TLD length
      features.append(len(domain))                           # 11 domain length
      features.append(len(parsed.path))                      # 12 path length
      features.append(osint["https"])                        # 13 HTTPS flag
      features.append(osint["domain_age_days"])              # 14 domain age
      features.append(osint["ssl_valid"])                    # 15 SSL valid
      features.append(osint["redirects"])                    # 16 redirects
      features.append(osint["suspicious_keywords"])          # 17 suspicious kw
      features.append(osint["subdomain_count"])              # 18 subdomains
      while len(features) < 30:
          features.append(0)
      return features[:30]
  \<close>
  The eighteen appended values are written as two lists, in the order of the appends:
  the twelve read from the URL and its parse, then the six read from the record.
\<close>

definition lexical_features :: "string \<Rightarrow> extract_result \<Rightarrow> string \<Rightarrow> parse_result \<Rightarrow> int list" where
  "lexical_features norm_url ext dname parsed =
     [int (length norm_url),
      str_count norm_url ''.'',
      (if str_in ''@'' norm_url then 1 else 0),
      str_count norm_url ''//'',
      str_count norm_url ''-'',
      str_count norm_url ''?'',
      str_count norm_url ''='',
      sum_list (map (\<lambda>c. if isdigit c then 1 else 0) norm_url),
      sum_list (map (\<lambda>c. if isalpha c then 1 else 0) norm_url),
      int (length (ext_suffix ext)),
      int (length dname),
      int (length (path parsed))]"

definition osint_features :: "osint \<Rightarrow> int list" where
  "osint_features r =
     [https r, domain_age_days r, ssl_valid r, redirects r, suspicious_keywords r,
      subdomain_count r]"

definition extract_features :: "env \<Rightarrow> string \<Rightarrow> (exn + int list) \<times> event list" where
  "extract_features E url =
     (let norm_url = normalize_url url in
      case urlparse E norm_url of
        Inl e \<Rightarrow> (Inl e, [])
      | Inr parsed \<Rightarrow>
          (case get_domain E url of
             Inl e \<Rightarrow> (Inl e, [])
           | Inr dname \<Rightarrow>
               (let ext = tldextract E norm_url in
                case get_osint_details E url of
                  (Inl e, evs) \<Rightarrow> (Inl e, evs)
                | (Inr r, evs) \<Rightarrow>
                    (let features = lexical_features norm_url ext dname parsed @ osint_features r
                     in (Inr (take 30 (pad features)), evs)))))"

section \<open>app.py: the two scan handlers\<close>

text \<open>
  The overrides of \<open>predict\<close>, two statements run one after the other:
  \<^verbatim>\<open>
    # simple hybrid tweaks
    if osint["https"] == 1 and osint["ssl_valid"] == 1 and osint["suspicious_keywords"] == 0:
        result = "Legitimate"
    if osint["https"] == 0 and osint["ssl_valid"] == 0 and osint["suspicious_keywords"] >= 2:
        result = "Phishing"
  \<close>
  The two result strings are the two values of \<open>verdict\<close>.
\<close>

definition force_legitimate :: "osint \<Rightarrow> bool" where
  "force_legitimate r = (https r = 1 \<and> ssl_valid r = 1 \<and> suspicious_keywords r = 0)"

definition force_phishing :: "osint \<Rightarrow> bool" where
  "force_phishing r = (https r = 0 \<and> ssl_valid r = 0 \<and> suspicious_keywords r \<ge> 2)"

definition tweak_legitimate :: "osint \<Rightarrow> verdict \<Rightarrow> verdict" where
  "tweak_legitimate r result = (if force_legitimate r then Legitimate else result)"

definition tweak_phishing :: "osint \<Rightarrow> verdict \<Rightarrow> verdict" where
  "tweak_phishing r result = (if force_phishing r then Phishing else result)"

definition hybrid_tweaks :: "osint \<Rightarrow> verdict \<Rightarrow> verdict" where
  "hybrid_tweaks r result = tweak_phishing r (tweak_legitimate r result)"

text \<open>\<open>result = "Legitimate" if pred == 1 else "Phishing"\<close>\<close>

definition label :: "int \<Rightarrow> verdict" where
  "label pred = (if pred = 1 then Legitimate else Phishing)"

text \<open>What a handler answers: the rendered page, or a JSON body with its status.\<close>

datatype response =
    Page string verdict osint
  | Json400 string
  | Json200 string verdict osint

text \<open>
  \<^verbatim>\<open>
  @app.route("/predict", methods=["POST"])
  @login_required
  def predict():
      url = (request.form.get("url") or "").strip()
      features = extract_features(url)
      scaled = scaler.transform([features])
      pred = model.predict(scaled)[0]
      result = "Legitimate" if pred == 1 else "Phishing"
      osint = get_osint_details(url)
      # simple hybrid tweaks
      ...
      scan = Scan(user_id=current_user.id, url=url, result=result, domain=osint["domain"], ...)
      db.session.add(scan)
      db.session.commit()
      ...
      return render_template("index.html", url=url, result=result, osint=osint, ...)
  \<close>
  The form is a dictionary of strings. The history and the statistics shown on the page
  are read back from the database and are left out.
\<close>

definition predict :: "env \<Rightarrow> (string \<rightharpoonup> string) \<Rightarrow> (exn + response) \<times> event list" where
  "predict E form =
     (let url = strip (case form ''url'' of None \<Rightarrow> [] | Some s \<Rightarrow> s) in
      case extract_features E url of
        (Inl e, ev1) \<Rightarrow> (Inl e, ev1)
      | (Inr features, ev1) \<Rightarrow>
          (let pred = classifier E features;
               result = label pred;
               ev2 = [Classify features]
           in case get_osint_details E url of
                (Inl e, ev3) \<Rightarrow> (Inl e, ev1 @ ev2 @ ev3)
              | (Inr r, ev3) \<Rightarrow>
                  (let result = hybrid_tweaks r result
                   in (Inr (Page url result r),
                       ev1 @ ev2 @ ev3 @ [DbAdd url result r]))))"

text \<open>A JSON value, as \<open>request.get_json(silent=True)\<close> returns it (\<open>None\<close> on no body).\<close>

datatype json =
    JNull
  | JBool bool
  | JNum int
  | JStr string
  | JArr "json list"
  | JObj "(string \<times> json) list"

fun json_truthy :: "json \<Rightarrow> bool" where
  "json_truthy JNull = False"
| "json_truthy (JBool b) = b"
| "json_truthy (JNum n) = (n \<noteq> 0)"
| "json_truthy (JStr s) = (s \<noteq> [])"
| "json_truthy (JArr xs) = (xs \<noteq> [])"
| "json_truthy (JObj kvs) = (kvs \<noteq> [])"

text \<open>\<open>data.get("url")\<close>: only a dictionary has the method.\<close>

fun json_get :: "json \<Rightarrow> string \<Rightarrow> exn + json" where
  "json_get (JObj kvs) k = Inr (case map_of kvs k of None \<Rightarrow> JNull | Some v \<Rightarrow> v)"
| "json_get _ k = Inl AttributeError"

text \<open>\<open>v.strip()\<close>: only a string has the method.\<close>

fun json_strip :: "json \<Rightarrow> exn + string" where
  "json_strip (JStr s) = Inr (strip s)"
| "json_strip _ = Inl AttributeError"

text \<open>
  \<^verbatim>\<open>
  @app.route("/api/scan", methods=["POST"])
  def api_scan():
      data = request.get_json(silent=True) or {}
      url = (data.get("url") or "").strip()

      if not url:
          return jsonify({"error": "url field is required"}), 400

      feats = extract_features(url)
      scaled = scaler.transform([feats])
      pred = model.predict(scaled)[0]
      result = "Legitimate" if pred == 1 else "Phishing"
      osint = get_osint_details(url)

      return jsonify({"url": url, "result": result, "osint": osint})
  \<close>
\<close>

definition api_scan :: "env \<Rightarrow> json \<Rightarrow> (exn + response) \<times> event list" where
  "api_scan E body =
     (let data = (if json_truthy body then body else JObj []) in
      case json_get data ''url'' of
        Inl e \<Rightarrow> (Inl e, [])
      | Inr v \<Rightarrow>
          (case json_strip (if json_truthy v then v else JStr []) of
             Inl e \<Rightarrow> (Inl e, [])
           | Inr url \<Rightarrow>
               if url = [] then (Inr (Json400 ''url field is required''), [])
               else
                 (case extract_features E url of
                    (Inl e, ev1) \<Rightarrow> (Inl e, ev1)
                  | (Inr feats, ev1) \<Rightarrow>
                      (let pred = classifier E feats;
                           result = label pred;
                           ev2 = [Classify feats]
                       in case get_osint_details E url of
                            (Inl e, ev3) \<Rightarrow> (Inl e, ev1 @ ev2 @ ev3)
                          | (Inr r, ev3) \<Rightarrow>
                              (Inr (Json200 url result r), ev1 @ ev2 @ ev3)))))"

section \<open>An environment to run the pipeline in\<close>

text \<open>
  \<open>urllib.parse.urlparse\<close> after the standard library's \<open>urlsplit\<close> and \<open>urlparse\<close>,
  for the three components the code reads: leading control characters and spaces are
  dropped, tabs and newlines removed, a leading scheme split off, the network location
  taken up to the first of \<open>/ ? #\<close>, a lone bracket in it refused
  (\<open>ValueError: Invalid IPv6 URL\<close>), fragment, query and parameters cut from the
  path. A host in a bracket pair is taken as it is.
\<close>

definition scheme_chars :: string where
  "scheme_chars = ''abcdefghijklmnopqrstuvwxyzABCDEFGHIJKLMNOPQRSTUVWXYZ0123456789+-.''"

definition uses_params :: "string list" where
  "uses_params = ['''', ''ftp'', ''hdl'', ''prospero'', ''http'', ''imap'',
                  ''https'', ''shttp'', ''rtsp'', ''rtsps'', ''rtspu'', ''sip'',
                  ''sips'', ''mms'', ''sftp'', ''tel'']"

definition split_scheme :: "string \<Rightarrow> string \<times> string" where
  "split_scheme url =
     (let pre = takeWhile (\<lambda>c. c \<noteq> CHR '':'') url in
      case url of
        [] \<Rightarrow> ([], url)
      | c # _ \<Rightarrow>
          if length pre < length url \<and> pre \<noteq> [] \<and> code c < 128 \<and> isalpha c
             \<and> list_all (\<lambda>c. c \<in> set scheme_chars) pre
          then (lower pre, drop (length pre + 1) url)
          else ([], url))"

definition splitnetloc :: "string \<Rightarrow> string \<times> string" where
  "splitnetloc url =
     (let rest = drop 2 url in
      (takeWhile (\<lambda>c. c \<notin> set ''/?#'') rest, dropWhile (\<lambda>c. c \<notin> set ''/?#'') rest))"

definition splitparams :: "string \<Rightarrow> string" where
  "splitparams url =
     (let tail = takeWhile (\<lambda>c. c \<noteq> CHR ''/'') (rev url);
          head = take (length url - length tail) url
      in head @ takeWhile (\<lambda>c. c \<noteq> CHR '';'') (rev tail))"

definition py_urlparse :: "string \<Rightarrow> exn + parse_result" where
  "py_urlparse url =
     (let url = dropWhile (\<lambda>c. code c \<le> 32) url;
          url = filter (\<lambda>c. code c \<noteq> 9 \<and> code c \<noteq> 10 \<and> code c \<noteq> 13) url;
          (sch, url) = split_scheme url;
          (loc, url) = (if take 2 url = ''//'' then splitnetloc url else ([], url))
      in if (CHR ''['' \<in> set loc) \<noteq> (CHR '']'' \<in> set loc) then Inl ValueError
         else
           (let url = takeWhile (\<lambda>c. c \<noteq> CHR ''#'') url;
                url = takeWhile (\<lambda>c. c \<noteq> CHR ''?'') url;
                url = (if sch \<in> set uses_params then splitparams url else url)
            in Inr \<lparr>scheme = sch, netloc = loc, path = url\<rparr>))"

text \<open>
  A public-suffix parser that knows one host and finds no suffix anywhere else.
\<close>

definition sample_tldextract :: "string \<Rightarrow> extract_result" where
  "sample_tldextract url =
     (if url = ''https://www.example.com/login''
      then \<lparr>ext_subdomain = ''www'', ext_domain = ''example'', ext_suffix = ''com''\<rparr>
      else \<lparr>ext_subdomain = [], ext_domain = [], ext_suffix = []\<rparr>)"

text \<open>
  A network outage: the registry query, the TLS connection and the HTTP request all
  raise. The classifier answers 1 whatever the vector.
\<close>

definition outage_env :: env where
  "outage_env =
     \<lparr>urlparse = py_urlparse,
      tldextract = sample_tldextract,
      whois = (\<lambda>d. Inl (LibraryError ''PywhoisError'')),
      utcnow = 0,
      getpeercert = (\<lambda>d. Inl (LibraryError ''gaierror'')),
      requests_get = (\<lambda>u. Inl (LibraryError ''ConnectionError'')),
      classifier = (\<lambda>v. 1)\<rparr>"

text \<open>
  A reachable network: the registry answers two candidate dates, the first 400 days and
  one microsecond before now; the host presents a certificate; the request is redirected
  once. The classifier answers 0 whatever the vector.
\<close>

definition online_env :: env where
  "online_env =
     \<lparr>urlparse = py_urlparse,
      tldextract = sample_tldextract,
      whois = (\<lambda>d. Inr (PyList [PyDatetime \<lparr>ticks = 1000000, tzinfo = Some 0\<rparr>,
                                PyDatetime \<lparr>ticks = 5, tzinfo = None\<rparr>])),
      utcnow = 400 * microseconds_per_day + 1000001,
      getpeercert = (\<lambda>d. Inr (Some [(''subject'', d)])),
      requests_get = (\<lambda>u. Inr [''http://www.example.com/login'']),
      classifier = (\<lambda>v. 0)\<rparr>"

text \<open>
  The age the specification asks of the domain-age probe, in its words
  \<open>max(now_utc - creation_date, 0)\<close> in days, the date normalized to UTC: the instant
  of a date with a zone is its reading less the offset of the zone, and a date without a
  zone is read as UTC.
\<close>

definition utc_instant :: "datetime \<Rightarrow> int" where
  "utc_instant c = (case tzinfo c of None \<Rightarrow> ticks c | Some off \<Rightarrow> ticks c - off)"

definition spec_domain_age_days :: "int \<Rightarrow> datetime \<Rightarrow> int" where
  "spec_domain_age_days now_utc creation_date =
     max ((now_utc - utc_instant creation_date) div microseconds_per_day) 0"

text \<open>
  A registry that answers a date with a zone: the reading 05:30 of the first day at the
  offset +05:30, which is the instant 00:00 UTC of that day. Now is exactly one day
  after that instant.
\<close>

definition half_past_five :: int where
  "half_past_five = 19800000000"

definition aware_date :: datetime where
  "aware_date = \<lparr>ticks = half_past_five, tzinfo = Some half_past_five\<rparr>"

definition aware_env :: env where
  "aware_env =
     online_env\<lparr>whois := (\<lambda>d. Inr (PyDatetime aware_date)),
                utcnow := microseconds_per_day\<rparr>"

section \<open>The suspicious-keyword counter\<close>

lemma sum_list_ones: "sum_list (map (\<lambda>w. 1::int) xs) = int (length xs)"
  by (induction xs) auto

lemma count_suspicious_keywords_length:
  "count_suspicious_keywords url =
     int (length (filter (\<lambda>w. str_in w (lower url)) suspicious_words))"
  by (simp add: count_suspicious_keywords_def sum_list_ones)

lemma distinct_suspicious_words: "distinct suspicious_words"
  by (simp add: suspicious_words_def)

lemma length_suspicious_words: "length suspicious_words = 14"
  by (simp add: suspicious_words_def)

text \<open>
  C1, as the code has it: on
  \<open>http://secure-login-verify-paypal.badsite.test/account/confirm\<close> the counter returns
  6, one for each of the six listed words that occur in the lower-cased text: login,
  secure, verify, account, confirm and paypal.
\<close>

theorem suspicious_keywords_scenario_counts_six:
  "count_suspicious_keywords
     ''http://secure-login-verify-paypal.badsite.test/account/confirm'' = 6
   \<and> filter
        (\<lambda>w. str_in w (lower ''http://secure-login-verify-paypal.badsite.test/account/confirm''))
        suspicious_words
     = [''login'', ''secure'', ''verify'', ''account'', ''confirm'', ''paypal'']"
  by (simp add: count_suspicious_keywords_def suspicious_words_def lower_def lower_char_def
      code_def startswith_def)

text \<open>The count of that scenario is not the 5 that C1 states.\<close>

theorem suspicious_keywords_scenario_not_five:
  "count_suspicious_keywords
     ''http://secure-login-verify-paypal.badsite.test/account/confirm'' \<noteq> 5"
  by (simp add: count_suspicious_keywords_def suspicious_words_def lower_def lower_char_def
      code_def startswith_def)

text \<open>
  C9: for every URL the count lies between 0 and 14, the length of the list; it is the
  number of distinct listed words that occur in the lower-cased text, so a word adds at
  most 1 however often it occurs.
\<close>

theorem count_suspicious_keywords_at_most_14:
  "0 \<le> count_suspicious_keywords url \<and> count_suspicious_keywords url \<le> 14
   \<and> count_suspicious_keywords url
       = int (card {w \<in> set suspicious_words. str_in w (lower url)})"
proof -
  let ?hits = "filter (\<lambda>w. str_in w (lower url)) suspicious_words"
  have "length ?hits \<le> length suspicious_words"
    by (rule length_filter_le)
  then have le: "length ?hits \<le> 14"
    by (simp add: length_suspicious_words)
  have "distinct ?hits"
    using distinct_suspicious_words by simp
  then have "card (set ?hits) = length ?hits"
    by (rule distinct_card)
  then have "card {w \<in> set suspicious_words. str_in w (lower url)} = length ?hits"
    by simp
  with le show ?thesis
    by (simp add: count_suspicious_keywords_length)
qed

section \<open>The normalizer\<close>

lemma dropWhile_id: "xs = [] \<or> \<not> P (hd xs) \<Longrightarrow> dropWhile P xs = xs"
  by (cases xs) auto

lemma strip_id:
  assumes "url = [] \<or> (\<not> isspace (hd url) \<and> \<not> isspace (last url))"
  shows "strip url = url"
proof (cases url)
  case Nil
  then show ?thesis by (simp add: strip_def lstrip_def rstrip_def)
next
  case (Cons c cs)
  with assms have l: "lstrip url = url"
    by (simp add: lstrip_def)
  from Cons have ne: "url \<noteq> []" by simp
  then have "hd (rev url) = last url"
    by (simp add: hd_rev)
  with assms ne have "\<not> isspace (hd (rev url))"
    by simp
  then have "dropWhile isspace (rev url) = rev url"
    by (intro dropWhile_id) simp
  with l show ?thesis by (simp add: strip_def rstrip_def)
qed

text \<open>
  C5, as the code has it: the normalizer first strips the whitespace around the input.
  If the stripped string starts with \<open>http://\<close> or \<open>https://\<close> it is returned as it is;
  otherwise \<open>http://\<close> is put in front of the stripped string. The output always starts
  with \<open>http://\<close> or \<open>https://\<close>. An input with no whitespace at either end is its own
  stripped string, so for it the rule is the one C5 states.
\<close>

theorem normalize_url_strips_then_prepends:
  "(startswith (strip url) ''http://'' \<or> startswith (strip url) ''https://''
      \<longrightarrow> normalize_url url = strip url)
   \<and> (\<not> (startswith (strip url) ''http://'' \<or> startswith (strip url) ''https://'')
      \<longrightarrow> normalize_url url = ''http://'' @ strip url)
   \<and> (startswith (normalize_url url) ''http://'' \<or> startswith (normalize_url url) ''https://'')
   \<and> (url = [] \<or> (\<not> isspace (hd url) \<and> \<not> isspace (last url)) \<longrightarrow> strip url = url)"
  using strip_id [of url]
  by (auto simp add: normalize_url_def Let_def startswith_def)

theorem normalize_url_witness:
  "normalize_url ''example.com'' = ''http://example.com''
   \<and> normalize_url ''https://example.com/a?b'' = ''https://example.com/a?b''
   \<and> normalize_url ''  example.com '' = ''http://example.com''
   \<and> normalize_url [] = ''http://''"
  using normalize_url_strips_then_prepends [of "''example.com''"]
    normalize_url_strips_then_prepends [of "''https://example.com/a?b''"]
    normalize_url_strips_then_prepends [of "''  example.com ''"]
    normalize_url_strips_then_prepends [of "[]"]
  by (simp add: strip_def lstrip_def rstrip_def startswith_def isspace_def code_def)

text \<open>
  C5 as stated fails on whitespace: an input that does not start with a scheme is not
  returned with \<open>http://\<close> in front of it, and one that starts with \<open>http://\<close> is not
  returned unchanged.
\<close>

theorem normalize_url_rewrites_whitespace:
  "\<not> startswith '' example.com'' ''http://'' \<and> \<not> startswith '' example.com'' ''https://''
   \<and> normalize_url '' example.com'' \<noteq> ''http://'' @ '' example.com''
   \<and> startswith ''http://example.com '' ''http://''
   \<and> normalize_url ''http://example.com '' \<noteq> ''http://example.com ''"
  by (simp add: normalize_url_def strip_def lstrip_def rstrip_def startswith_def isspace_def
      code_def)

section \<open>The overrides of the verdict\<close>

text \<open>
  C3: whatever the classifier's verdict and the record, the overrides return Legitimate
  when \<open>https\<close> is 1, \<open>ssl_valid\<close> is 1 and no suspicious keyword was counted; Phishing
  when \<open>https\<close> is 0, \<open>ssl_valid\<close> is 0 and at least two were counted; and the classifier's
  verdict unchanged when neither condition holds.
\<close>

theorem hybrid_tweaks_rules:
  "(https r = 1 \<and> ssl_valid r = 1 \<and> suspicious_keywords r = 0
      \<longrightarrow> hybrid_tweaks r base = Legitimate)
   \<and> (https r = 0 \<and> ssl_valid r = 0 \<and> suspicious_keywords r \<ge> 2
      \<longrightarrow> hybrid_tweaks r base = Phishing)
   \<and> (\<not> (https r = 1 \<and> ssl_valid r = 1 \<and> suspicious_keywords r = 0)
        \<and> \<not> (https r = 0 \<and> ssl_valid r = 0 \<and> suspicious_keywords r \<ge> 2)
      \<longrightarrow> hybrid_tweaks r base = base)"
  by (simp add: hybrid_tweaks_def tweak_phishing_def tweak_legitimate_def
      force_legitimate_def force_phishing_def)

theorem hybrid_tweaks_rules_witness:
  "hybrid_tweaks \<lparr>domain = ''a.test'', https = 1, domain_age_days = 0, ssl_valid = 1,
      redirects = 0, suspicious_keywords = 0, subdomain_count = 0\<rparr> Phishing = Legitimate
   \<and> hybrid_tweaks \<lparr>domain = ''a.test'', https = 0, domain_age_days = 0, ssl_valid = 0,
      redirects = 0, suspicious_keywords = 2, subdomain_count = 0\<rparr> Legitimate = Phishing
   \<and> hybrid_tweaks \<lparr>domain = ''a.test'', https = 1, domain_age_days = 0, ssl_valid = 0,
      redirects = 0, suspicious_keywords = 3, subdomain_count = 0\<rparr> Legitimate = Legitimate
   \<and> hybrid_tweaks \<lparr>domain = ''a.test'', https = 0, domain_age_days = 0, ssl_valid = 0,
      redirects = 0, suspicious_keywords = 1, subdomain_count = 0\<rparr> Phishing = Phishing"
  using
    hybrid_tweaks_rules [of "\<lparr>domain = ''a.test'', https = 1, domain_age_days = 0,
      ssl_valid = 1, redirects = 0, suspicious_keywords = 0, subdomain_count = 0\<rparr>" Phishing]
    hybrid_tweaks_rules [of "\<lparr>domain = ''a.test'', https = 0, domain_age_days = 0,
      ssl_valid = 0, redirects = 0, suspicious_keywords = 2, subdomain_count = 0\<rparr>" Legitimate]
    hybrid_tweaks_rules [of "\<lparr>domain = ''a.test'', https = 1, domain_age_days = 0,
      ssl_valid = 0, redirects = 0, suspicious_keywords = 3, subdomain_count = 0\<rparr>" Legitimate]
    hybrid_tweaks_rules [of "\<lparr>domain = ''a.test'', https = 0, domain_age_days = 0,
      ssl_valid = 0, redirects = 0, suspicious_keywords = 1, subdomain_count = 0\<rparr>" Phishing]
  by simp

text \<open>
  C8: no record satisfies the condition of both overrides, and running the two
  statements in the order of the source gives the same verdict as running them in the
  other order.
\<close>

theorem hybrid_guards_exclusive:
  "\<not> (force_legitimate r \<and> force_phishing r)
   \<and> hybrid_tweaks r base = tweak_phishing r (tweak_legitimate r base)
   \<and> tweak_phishing r (tweak_legitimate r base) = tweak_legitimate r (tweak_phishing r base)"
  by (auto simp add: hybrid_tweaks_def tweak_phishing_def tweak_legitimate_def
      force_legitimate_def force_phishing_def)

section \<open>The record and the vector\<close>

lemma str_split_not_Nil: "str_split s sep \<noteq> []"
  by (induction s) (auto split: list.splits)

lemma get_domain_Inl: "urlparse E (normalize_url url) = Inl e \<Longrightarrow> get_domain E url = Inl e"
  by (simp add: get_domain_def)

lemma get_domain_Inr:
  assumes "urlparse E (normalize_url url) = Inr p"
  shows "\<exists>d. get_domain E url = Inr d"
proof (cases "str_split (netloc p) (CHR '':'')")
  case Nil
  then show ?thesis using str_split_not_Nil by blast
next
  case (Cons w ws)
  with assms show ?thesis by (simp add: get_domain_def)
qed

lemma get_osint_details_Inl:
  "urlparse E (normalize_url url) = Inl e \<Longrightarrow> get_osint_details E url = (Inl e, [])"
  by (simp add: get_osint_details_def)

lemma get_osint_details_Inr:
  assumes "urlparse E (normalize_url url) = Inr p" and "get_domain E url = Inr d"
  shows "get_osint_details E url =
     (Inr \<lparr>domain = d,
           https = (if scheme p = ''https'' then 1 else 0),
           domain_age_days = fst (get_domain_age_days E d),
           ssl_valid = fst (has_valid_ssl E d),
           redirects = fst (get_redirect_count E url),
           suspicious_keywords = count_suspicious_keywords url,
           subdomain_count =
             (if ext_subdomain (tldextract E (normalize_url url)) \<noteq> []
              then int (length (str_split (ext_subdomain (tldextract E (normalize_url url)))
                                  (CHR ''.'')))
              else 0)\<rparr>,
      [WhoisQuery d, TlsConnect d, HttpGet (normalize_url url)])"
  using assms
  by (simp add: get_osint_details_def Let_def get_domain_age_days_def has_valid_ssl_def
      get_redirect_count_def)

text \<open>The padding loop fills a list of at most 30 values with zeros up to 30.\<close>

lemma pad_eq: "length fs \<le> 30 \<Longrightarrow> pad fs = fs @ replicate (30 - length fs) 0"
proof (induction fs rule: pad.induct)
  case (1 features)
  show ?case
  proof (cases "length features < 30")
    case True
    then have "pad features = pad (features @ [0])"
      by (subst pad.simps) simp
    also have "\<dots> = (features @ [0]) @ replicate (30 - length (features @ [0])) 0"
      using True by (intro "1.IH") simp_all
    also have "\<dots> = features @ replicate (30 - length features) 0"
    proof -
      from True obtain k where k: "30 - length features = Suc k"
        by (cases "30 - length features") simp_all
      then have "30 - length (features @ [0]) = k" by simp
      with k show ?thesis by (simp add: replicate_Suc [symmetric] del: replicate_Suc)
    qed
    finally show ?thesis .
  next
    case False
    with "1.prems" have "length features = 30" by simp
    then show ?thesis by (subst pad.simps) simp
  qed
qed

lemma length_lexical_features: "length (lexical_features u x d p) = 12"
  by (simp add: lexical_features_def)

lemma length_osint_features: "length (osint_features r) = 6"
  by (simp add: osint_features_def)

lemma extract_features_Inl:
  "urlparse E (normalize_url url) = Inl e \<Longrightarrow> extract_features E url = (Inl e, [])"
  by (simp add: extract_features_def)

lemma extract_features_Inr:
  assumes "urlparse E (normalize_url url) = Inr p" and "get_domain E url = Inr d"
    and "get_osint_details E url = (Inr r, evs)"
  shows "extract_features E url =
     (Inr (lexical_features (normalize_url url) (tldextract E (normalize_url url)) d p
           @ osint_features r @ replicate 12 0), evs)"
proof -
  let ?fs = "lexical_features (normalize_url url) (tldextract E (normalize_url url)) d p
             @ osint_features r"
  have "pad ?fs = ?fs @ replicate 12 0"
    by (subst pad_eq) (simp_all add: length_lexical_features length_osint_features)
  then have "take 30 (pad ?fs) = ?fs @ replicate 12 0"
    by (simp add: length_lexical_features length_osint_features)
  with assms show ?thesis
    by (simp add: extract_features_def Let_def)
qed

text \<open>
  C2, as the code has it: \<open>urlparse\<close> is called outside every \<open>try\<close>. For every input
  string on whose normalized form \<open>urlparse\<close> returns, \<open>extract_features\<close> returns a
  vector of exactly 30 integers whose slots after the 18th are 0, whatever the probes
  do; when \<open>urlparse\<close> raises, the exception leaves \<open>extract_features\<close> and no probe has
  been called.
\<close>

theorem extract_features_length_30:
  "(urlparse E (normalize_url url) = Inr p \<longrightarrow>
      (\<exists>v. fst (extract_features E url) = Inr v \<and> length v = 30
            \<and> drop 18 v = replicate 12 0))
   \<and> (urlparse E (normalize_url url) = Inl e \<longrightarrow> extract_features E url = (Inl e, []))"
proof (intro conjI impI)
  assume p: "urlparse E (normalize_url url) = Inr p"
  then obtain d where d: "get_domain E url = Inr d"
    using get_domain_Inr by blast
  from p d obtain r evs where "get_osint_details E url = (Inr r, evs)"
    using get_osint_details_Inr by blast
  from extract_features_Inr [OF p d this]
  show "\<exists>v. fst (extract_features E url) = Inr v \<and> length v = 30 \<and> drop 18 v = replicate 12 0"
    by (simp add: length_lexical_features length_osint_features)
next
  assume "urlparse E (normalize_url url) = Inl e"
  then show "extract_features E url = (Inl e, [])"
    by (rule extract_features_Inl)
qed

theorem extract_features_length_30_witness:
  "urlparse outage_env (normalize_url []) = Inr \<lparr>scheme = ''http'', netloc = [], path = []\<rparr>
   \<and> (\<exists>v. fst (extract_features outage_env []) = Inr v \<and> length v = 30
            \<and> drop 18 v = replicate 12 0)
   \<and> urlparse outage_env (normalize_url ''['') = Inl ValueError
   \<and> extract_features outage_env ''['' = (Inl ValueError, [])"
proof -
  have ok: "urlparse outage_env (normalize_url [])
              = Inr \<lparr>scheme = ''http'', netloc = [], path = []\<rparr>"
    by code_simp
  have bad: "urlparse outage_env (normalize_url ''['') = Inl ValueError"
    by code_simp
  from ok bad
    extract_features_length_30 [of outage_env "[]" "\<lparr>scheme = ''http'', netloc = [], path = []\<rparr>"
      ValueError]
    extract_features_length_30 [of outage_env "''[''" "\<lparr>scheme = ''http'', netloc = [], path = []\<rparr>"
      ValueError]
  show ?thesis by simp
qed

text \<open>
  C2 as stated fails where \<open>urlparse\<close> raises: on the input \<open>[\<close>, normalized to
  \<open>http://[\<close>, the standard library's parser raises \<open>ValueError\<close> and no vector is
  returned.
\<close>

theorem extract_features_raises_on_bracket:
  "normalize_url ''['' = ''http://['' \<and> py_urlparse ''http://['' = Inl ValueError
   \<and> fst (extract_features outage_env ''['') = Inl ValueError"
  by code_simp

text \<open>
  C10: whenever \<open>get_osint_details\<close> returns a record on a URL, \<open>extract_features\<close>
  returns a vector on the same URL, and its slots 13 to 18 are the \<open>https\<close>,
  \<open>domain_age_days\<close>, \<open>ssl_valid\<close>, \<open>redirects\<close>, \<open>suspicious_keywords\<close> and
  \<open>subdomain_count\<close> of that record.
\<close>

theorem extract_features_osint_slots:
  assumes "fst (get_osint_details E url) = Inr r"
  shows "\<exists>v. fst (extract_features E url) = Inr v
           \<and> v ! 12 = https r \<and> v ! 13 = domain_age_days r \<and> v ! 14 = ssl_valid r
           \<and> v ! 15 = redirects r \<and> v ! 16 = suspicious_keywords r
           \<and> v ! 17 = subdomain_count r"
proof (cases "urlparse E (normalize_url url)")
  case (Inl e)
  with assms show ?thesis by (simp add: get_osint_details_Inl)
next
  case (Inr p)
  then obtain d where d: "get_domain E url = Inr d"
    using get_domain_Inr by blast
  from assms obtain evs where "get_osint_details E url = (Inr r, evs)"
    by (cases "get_osint_details E url") simp
  from extract_features_Inr [OF Inr d this]
  show ?thesis
    by (simp add: nth_append osint_features_def length_lexical_features)
qed

theorem extract_features_osint_slots_witness:
  "fst (get_osint_details online_env ''https://www.example.com/login'')
     = Inr \<lparr>domain = ''www.example.com'', https = 1, domain_age_days = 400, ssl_valid = 1,
            redirects = 1, suspicious_keywords = 1, subdomain_count = 1\<rparr>
   \<and> (\<exists>v. fst (extract_features online_env ''https://www.example.com/login'') = Inr v
          \<and> v ! 12 = 1 \<and> v ! 13 = 400 \<and> v ! 14 = 1 \<and> v ! 15 = 1 \<and> v ! 16 = 1 \<and> v ! 17 = 1)"
proof -
  have r: "fst (get_osint_details online_env ''https://www.example.com/login'')
     = Inr \<lparr>domain = ''www.example.com'', https = 1, domain_age_days = 400, ssl_valid = 1,
            redirects = 1, suspicious_keywords = 1, subdomain_count = 1\<rparr>"
    by code_simp
  from r extract_features_osint_slots [OF r] show ?thesis by simp
qed

section \<open>The probes\<close>

lemma domain_age_try_whois_Inl: "whois E d = Inl e \<Longrightarrow> domain_age_try E d = Inl e"
  by (simp add: domain_age_try_def)

lemma domain_age_try_datetime:
  "whois E d = Inr (PyDatetime c) \<Longrightarrow>
     domain_age_try E d = Inr (max ((utcnow E - ticks c) div microseconds_per_day) 0)"
  by (simp add: domain_age_try_def first_of_def Let_def split: option.splits)

lemma domain_age_try_list:
  "whois E d = Inr (PyList (PyDatetime c # cs)) \<Longrightarrow>
     domain_age_try E d = Inr (max ((utcnow E - ticks c) div microseconds_per_day) 0)"
  by (simp add: domain_age_try_def first_of_def Let_def split: option.splits)

lemma domain_age_try_nonneg: "domain_age_try E d = Inr n \<Longrightarrow> 0 \<le> n"
  by (auto simp add: domain_age_try_def first_of_def Let_def
      split: sum.splits pyval.splits list.splits if_splits option.splits)

text \<open>
  C6: a fault inside a probe never leaves it. Whatever raises in the body of the
  domain-age probe (the registry query, the indexing of an empty list, the subtraction
  of a value that is no date), the probe returns 0; a failed TLS connection makes the
  TLS probe return 0; a failed request makes the redirect probe return 0. Once the URL
  has been parsed, \<open>get_osint_details\<close> therefore returns a record whatever the probes
  met, with those defaults in the fields of the probes that failed.
\<close>

theorem probes_never_raise:
  "(domain_age_try E d = Inl e1 \<longrightarrow> get_domain_age_days E d = (0, [WhoisQuery d]))
   \<and> (whois E d = Inl e1 \<longrightarrow> get_domain_age_days E d = (0, [WhoisQuery d]))
   \<and> (getpeercert E d = Inl e2 \<longrightarrow> has_valid_ssl E d = (0, [TlsConnect d]))
   \<and> (requests_get E (normalize_url url) = Inl e3
        \<longrightarrow> get_redirect_count E url = (0, [HttpGet (normalize_url url)]))
   \<and> (urlparse E (normalize_url url) = Inr p \<longrightarrow>
        (\<exists>r. fst (get_osint_details E url) = Inr r
           \<and> (domain_age_try E (domain r) = Inl e1 \<longrightarrow> domain_age_days r = 0)
           \<and> (getpeercert E (domain r) = Inl e2 \<longrightarrow> ssl_valid r = 0)
           \<and> (requests_get E (normalize_url url) = Inl e3 \<longrightarrow> redirects r = 0)))"
proof (intro conjI impI)
  assume "domain_age_try E d = Inl e1"
  then show "get_domain_age_days E d = (0, [WhoisQuery d])"
    by (simp add: get_domain_age_days_def)
next
  assume "whois E d = Inl e1"
  then have "domain_age_try E d = Inl e1"
    by (rule domain_age_try_whois_Inl)
  then show "get_domain_age_days E d = (0, [WhoisQuery d])"
    by (simp add: get_domain_age_days_def)
next
  assume "getpeercert E d = Inl e2"
  then show "has_valid_ssl E d = (0, [TlsConnect d])"
    by (simp add: has_valid_ssl_def)
next
  assume "requests_get E (normalize_url url) = Inl e3"
  then show "get_redirect_count E url = (0, [HttpGet (normalize_url url)])"
    by (simp add: get_redirect_count_def Let_def)
next
  assume p: "urlparse E (normalize_url url) = Inr p"
  then obtain dn where dn: "get_domain E url = Inr dn"
    using get_domain_Inr by blast
  note r = get_osint_details_Inr [OF p dn]
  show "\<exists>r. fst (get_osint_details E url) = Inr r
           \<and> (domain_age_try E (domain r) = Inl e1 \<longrightarrow> domain_age_days r = 0)
           \<and> (getpeercert E (domain r) = Inl e2 \<longrightarrow> ssl_valid r = 0)
           \<and> (requests_get E (normalize_url url) = Inl e3 \<longrightarrow> redirects r = 0)"
    by (simp add: r get_domain_age_days_def has_valid_ssl_def get_redirect_count_def Let_def)
qed

theorem probes_never_raise_witness:
  "whois outage_env ''example.com'' = Inl (LibraryError ''PywhoisError'')
   \<and> get_domain_age_days outage_env ''example.com'' = (0, [WhoisQuery ''example.com''])
   \<and> getpeercert outage_env ''example.com'' = Inl (LibraryError ''gaierror'')
   \<and> has_valid_ssl outage_env ''example.com'' = (0, [TlsConnect ''example.com''])
   \<and> requests_get outage_env (normalize_url ''example.com'')
        = Inl (LibraryError ''ConnectionError'')
   \<and> get_redirect_count outage_env ''example.com'' = (0, [HttpGet ''http://example.com''])
   \<and> fst (get_osint_details outage_env ''example.com'')
        = Inr \<lparr>domain = ''example.com'', https = 0, domain_age_days = 0, ssl_valid = 0,
               redirects = 0, suspicious_keywords = 0, subdomain_count = 0\<rparr>"
proof -
  have w: "whois outage_env ''example.com'' = Inl (LibraryError ''PywhoisError'')"
    by (simp add: outage_env_def)
  have c: "getpeercert outage_env ''example.com'' = Inl (LibraryError ''gaierror'')"
    by (simp add: outage_env_def)
  have g: "requests_get outage_env (normalize_url ''example.com'')
             = Inl (LibraryError ''ConnectionError'')"
    by (simp add: outage_env_def)
  have n: "normalize_url ''example.com'' = ''http://example.com''"
    by code_simp
  have r: "fst (get_osint_details outage_env ''example.com'')
        = Inr \<lparr>domain = ''example.com'', https = 0, domain_age_days = 0, ssl_valid = 0,
               redirects = 0, suspicious_keywords = 0, subdomain_count = 0\<rparr>"
    by code_simp
  from w c g n r
    probes_never_raise [of outage_env "''example.com''" "LibraryError ''PywhoisError''"
      "LibraryError ''gaierror''" "''example.com''" "LibraryError ''ConnectionError''"
      "\<lparr>scheme = ''http'', netloc = ''example.com'', path = []\<rparr>"]
  show ?thesis by simp
qed

text \<open>
  The domain-age probe returns a number of days that is never negative. When the
  registry gives a date, alone or first in a list, it returns the larger of 0 and the
  whole days from that date's wall-clock reading to the reading of \<open>utcnow()\<close>; it
  returns 0 when the date is missing (\<open>None\<close>, an empty string, an empty list), when it
  is an unparsed string, and when the query raises.
\<close>

lemma domain_age_days_nonneg:
  "0 \<le> fst (get_domain_age_days E d)
   \<and> (whois E d = Inr (PyDatetime c) \<longrightarrow>
        fst (get_domain_age_days E d) = max ((utcnow E - ticks c) div microseconds_per_day) 0)
   \<and> (whois E d = Inr (PyList (PyDatetime c # cs)) \<longrightarrow>
        fst (get_domain_age_days E d) = max ((utcnow E - ticks c) div microseconds_per_day) 0)
   \<and> (whois E d = Inr PyNone \<longrightarrow> fst (get_domain_age_days E d) = 0)
   \<and> (whois E d = Inr (PyStr s) \<longrightarrow> fst (get_domain_age_days E d) = 0)
   \<and> (whois E d = Inr (PyList []) \<longrightarrow> fst (get_domain_age_days E d) = 0)
   \<and> (whois E d = Inl e \<longrightarrow> fst (get_domain_age_days E d) = 0)"
proof (intro conjI impI)
  show "0 \<le> fst (get_domain_age_days E d)"
    using domain_age_try_nonneg [of E d]
    by (cases "domain_age_try E d") (simp_all add: get_domain_age_days_def)
next
  assume "whois E d = Inr (PyDatetime c)"
  then show "fst (get_domain_age_days E d) = max ((utcnow E - ticks c) div microseconds_per_day) 0"
    by (simp add: get_domain_age_days_def domain_age_try_datetime)
next
  assume "whois E d = Inr (PyList (PyDatetime c # cs))"
  then show "fst (get_domain_age_days E d) = max ((utcnow E - ticks c) div microseconds_per_day) 0"
    by (simp add: get_domain_age_days_def domain_age_try_list)
next
  assume "whois E d = Inr PyNone"
  then show "fst (get_domain_age_days E d) = 0"
    by (simp add: get_domain_age_days_def domain_age_try_def first_of_def)
next
  assume "whois E d = Inr (PyStr s)"
  then show "fst (get_domain_age_days E d) = 0"
    by (simp add: get_domain_age_days_def domain_age_try_def first_of_def)
next
  assume "whois E d = Inr (PyList [])"
  then show "fst (get_domain_age_days E d) = 0"
    by (simp add: get_domain_age_days_def domain_age_try_def first_of_def)
next
  assume "whois E d = Inl e"
  then show "fst (get_domain_age_days E d) = 0"
    by (simp add: get_domain_age_days_def domain_age_try_whois_Inl)
qed

lemma domain_age_days_nonneg_examples:
  "fst (get_domain_age_days online_env ''example.com'') = 400
   \<and> fst (get_domain_age_days (online_env\<lparr>utcnow := 0\<rparr>) ''example.com'') = 0
   \<and> fst (get_domain_age_days (online_env\<lparr>whois := \<lambda>d. Inr (PyDatetime \<lparr>ticks = 0, tzinfo = None\<rparr>)\<rparr>)
          ''example.com'') = 400
   \<and> fst (get_domain_age_days (online_env\<lparr>whois := \<lambda>d. Inr PyNone\<rparr>) ''example.com'') = 0
   \<and> fst (get_domain_age_days (online_env\<lparr>whois := \<lambda>d. Inr (PyStr ''before Aug-1996'')\<rparr>)
          ''example.com'') = 0
   \<and> fst (get_domain_age_days (online_env\<lparr>whois := \<lambda>d. Inr (PyList [])\<rparr>) ''example.com'') = 0
   \<and> fst (get_domain_age_days outage_env ''example.com'') = 0"
  using
    domain_age_days_nonneg [of online_env "''example.com''" "\<lparr>ticks = 1000000, tzinfo = Some 0\<rparr>"
      "[PyDatetime \<lparr>ticks = 5, tzinfo = None\<rparr>]" "[]" ValueError]
    domain_age_days_nonneg [of "online_env\<lparr>utcnow := 0\<rparr>" "''example.com''"
      "\<lparr>ticks = 1000000, tzinfo = Some 0\<rparr>" "[PyDatetime \<lparr>ticks = 5, tzinfo = None\<rparr>]" "[]"
      ValueError]
    domain_age_days_nonneg [of "online_env\<lparr>whois := \<lambda>d. Inr (PyDatetime \<lparr>ticks = 0, tzinfo = None\<rparr>)\<rparr>"
      "''example.com''" "\<lparr>ticks = 0, tzinfo = None\<rparr>" "[]" "[]" ValueError]
    domain_age_days_nonneg [of "online_env\<lparr>whois := \<lambda>d. Inr PyNone\<rparr>" "''example.com''"
      "\<lparr>ticks = 0, tzinfo = None\<rparr>" "[]" "[]" ValueError]
    domain_age_days_nonneg [of "online_env\<lparr>whois := \<lambda>d. Inr (PyStr ''before Aug-1996'')\<rparr>"
      "''example.com''" "\<lparr>ticks = 0, tzinfo = None\<rparr>" "[]" "''before Aug-1996''" ValueError]
    domain_age_days_nonneg [of "online_env\<lparr>whois := \<lambda>d. Inr (PyList [])\<rparr>" "''example.com''"
      "\<lparr>ticks = 0, tzinfo = None\<rparr>" "[]" "[]" ValueError]
    domain_age_days_nonneg [of outage_env "''example.com''" "\<lparr>ticks = 0, tzinfo = None\<rparr>" "[]"
      "[]" "LibraryError ''PywhoisError''"]
  by (simp add: online_env_def outage_env_def microseconds_per_day_def)

text \<open>
  Where the date has no zone, or the zone of UTC, the probe returns the age the
  specification asks.
\<close>

lemma domain_age_days_without_offset:
  assumes "whois E d = Inr (PyDatetime c)" and "tzinfo c = None \<or> tzinfo c = Some 0"
  shows "fst (get_domain_age_days E d) = spec_domain_age_days (utcnow E) c"
proof -
  from assms(2) have "utc_instant c = ticks c"
    by (auto simp add: utc_instant_def)
  with assms(1) show ?thesis
    by (simp add: get_domain_age_days_def domain_age_try_datetime spec_domain_age_days_def)
qed

text \<open>
  C7 on the code: the age must be \<open>max(now_utc - creation_date, 0)\<close> in days. For a
  creation date with a zone the probe drops the zone (\<open>replace(tzinfo=None)\<close>) and
  subtracts the wall-clock reading from the UTC reading of now. With the date 05:30 at
  +05:30, exactly one day before now, the age is 1 day and the probe returns 0.
\<close>

theorem domain_age_ignores_utc_offset:
  "whois aware_env ''example.com'' = Inr (PyDatetime aware_date)
   \<and> tzinfo aware_date = Some half_past_five
   \<and> utcnow aware_env - utc_instant aware_date = microseconds_per_day
   \<and> spec_domain_age_days (utcnow aware_env) aware_date = 1
   \<and> fst (get_domain_age_days aware_env ''example.com'') = 0"
  by (simp add: aware_env_def aware_date_def half_past_five_def online_env_def
      microseconds_per_day_def utc_instant_def spec_domain_age_days_def
      get_domain_age_days_def domain_age_try_def first_of_def)

section \<open>The two handlers and the empty URL\<close>

text \<open>
  \<open>/api/scan\<close> rejects a body with no \<open>url\<close>, a null or empty one, or one made of
  whitespace, before anything else is called.
\<close>

lemma api_scan_rejects_no_body:
  "\<not> json_truthy body \<Longrightarrow> api_scan E body = (Inr (Json400 ''url field is required''), [])"
  by (simp add: api_scan_def strip_def lstrip_def rstrip_def)

lemma api_scan_rejects_missing_url:
  "map_of kvs ''url'' = None \<Longrightarrow>
     api_scan E (JObj kvs) = (Inr (Json400 ''url field is required''), [])"
  by (simp add: api_scan_def strip_def lstrip_def rstrip_def)

lemma api_scan_rejects_empty_url:
  "map_of kvs ''url'' = Some (JStr s) \<Longrightarrow> strip s = [] \<Longrightarrow>
     api_scan E (JObj kvs) = (Inr (Json400 ''url field is required''), [])"
  by (cases "s = []") (auto simp add: api_scan_def strip_def lstrip_def rstrip_def)

text \<open>\<open>/predict\<close> has no such answer: it never returns the validation failure.\<close>

lemma predict_never_rejects: "fst (predict E form) \<noteq> Inr (Json400 m)"
  by (auto simp add: predict_def Let_def split: prod.splits sum.splits)

lemma normalize_url_Nil: "normalize_url [] = ''http://''"
  by (simp add: normalize_url_def strip_def lstrip_def rstrip_def startswith_def)

text \<open>
  With no \<open>url\<close> in the form, or an empty one, \<open>/predict\<close> scans the empty string: once
  \<open>http://\<close> has been parsed, the first call is the registry query for the host.
\<close>

lemma predict_scans_without_url:
  assumes "form ''url'' = None \<or> form ''url'' = Some []"
    and p: "urlparse E ''http://'' = Inr p"
  shows "\<exists>d res r evs. predict E form = (Inr (Page [] res r), WhoisQuery d # evs)"
proof -
  from assms(1) have u: "strip (case form ''url'' of None \<Rightarrow> [] | Some s \<Rightarrow> s) = []"
    by (auto simp add: strip_def lstrip_def rstrip_def)
  from p have p': "urlparse E (normalize_url []) = Inr p"
    by (simp add: normalize_url_Nil)
  then obtain d where d: "get_domain E [] = Inr d"
    using get_domain_Inr by blast
  note r = get_osint_details_Inr [OF p' d]
  note v = extract_features_Inr [OF p' d r]
  show ?thesis
    by (simp add: predict_def u v r Let_def)
qed

text \<open>
  C4 on the code: a scan request with no \<open>url\<close> is rejected by \<open>/api/scan\<close> with no call
  made, but not by \<open>/predict\<close>. During a network outage, \<open>/predict\<close> on a form without a
  \<open>url\<close>, or with a blank one, queries the registry, opens the TLS connection and sends
  the HTTP request for the empty host, calls the classifier, repeats the three probes,
  stores the scan and renders a verdict.
\<close>

theorem predict_scans_empty_url:
  "api_scan outage_env (JObj []) = (Inr (Json400 ''url field is required''), [])
   \<and> api_scan outage_env (JObj [(''url'', JStr ''  '')])
       = (Inr (Json400 ''url field is required''), [])
   \<and> predict outage_env Map.empty =
       (Inr (Page [] Legitimate
               \<lparr>domain = [], https = 0, domain_age_days = 0, ssl_valid = 0,
                redirects = 0, suspicious_keywords = 0, subdomain_count = 0\<rparr>),
        [WhoisQuery [], TlsConnect [], HttpGet ''http://'',
         Classify [7, 0, 0, 1, 0, 0, 0, 0, 4, 0, 0, 0, 0, 0, 0, 0, 0, 0, 0, 0, 0, 0, 0, 0,
                   0, 0, 0, 0, 0, 0],
         WhoisQuery [], TlsConnect [], HttpGet ''http://'',
         DbAdd [] Legitimate
           \<lparr>domain = [], https = 0, domain_age_days = 0, ssl_valid = 0,
            redirects = 0, suspicious_keywords = 0, subdomain_count = 0\<rparr>])
   \<and> predict outage_env [''url'' \<mapsto> ''  ''] = predict outage_env Map.empty"
  by code_simp

section \<open>The overrides inside the handlers\<close>

text \<open>The two flags of a record that \<open>get_osint_details\<close> returns are 0 or 1.\<close>

lemma get_osint_details_flags:
  assumes "fst (get_osint_details E url) = Inr r"
  shows "(https r = 0 \<or> https r = 1) \<and> (ssl_valid r = 0 \<or> ssl_valid r = 1)"
proof (cases "urlparse E (normalize_url url)")
  case (Inl e)
  with assms show ?thesis by (simp add: get_osint_details_Inl)
next
  case (Inr p)
  then obtain d where d: "get_domain E url = Inr d"
    using get_domain_Inr by blast
  have ssl: "fst (has_valid_ssl E d) = 0 \<or> fst (has_valid_ssl E d) = 1"
    by (simp add: has_valid_ssl_def split: sum.splits)
  from assms get_osint_details_Inr [OF Inr d]
  have "https r = (if scheme p = ''https'' then 1 else 0)"
    and "ssl_valid r = fst (has_valid_ssl E d)"
    by auto
  with ssl show ?thesis
    by (simp split: if_splits)
qed

text \<open>
  The verdict on the page of \<open>/predict\<close> is the classifier's, passed through the
  overrides with the record shown beside it; \<open>/api/scan\<close> answers the classifier's
  verdict as it is.
\<close>

lemma predict_applies_hybrid_tweaks:
  assumes "predict E form = (Inr (Page u res r), evs)"
  shows "\<exists>features. res = hybrid_tweaks r (label (classifier E features))"
  using assms
  by (auto simp add: predict_def Let_def split: prod.splits sum.splits)

lemma api_scan_answers_label:
  assumes "api_scan E body = (Inr (Json200 u res r), evs)"
  shows "\<exists>feats. res = label (classifier E feats)"
  using assms
  by (auto simp add: api_scan_def Let_def split: prod.splits sum.splits if_splits)

end
